theory Spec2Isabelle
  imports Complex_Main
begin

section \<open>The configuration (main.go, lines 18-50)\<close>

text \<open>
  The Go struct \<^verbatim>\<open>Config\<close>. Go's \<^verbatim>\<open>int\<close> (64 bits) is modelled by \<^typ>\<open>int\<close>: the
  program adds and subtracts replica counts, which come from 32-bit fields of the
  collaborators and from the configuration, and no wrap-around is modelled for them. The
  one narrowing conversion the program writes, \<^verbatim>\<open>int32(replicas)\<close>, is modelled with its
  wrap-around.

  \<^verbatim>\<open>float64\<close> is modelled by \<^typ>\<open>real\<close>: a finite float stands for the real number
  it denotes, and the float operations of the program (one division, one product,
  \<^verbatim>\<open>math.Ceil\<close>, \<^verbatim>\<open>math.Floor\<close>, the conversions from and to \<^verbatim>\<open>int\<close>) for the exact
  operations on reals. The rounding of the quotient and of the product to 53 bits is not
  modelled. NaN and the infinities are outside the model, so a division by zero, which
  produces them, is a result of its own.
\<close>

record Config =
  RabbitMQHost :: string
  QueueName :: string
  Namespace :: string
  Deployment :: string
  MaxPods :: int
  MinPods :: int
  MsgPerPod :: int
  ScanInterval :: int
  ScaleFactor :: real

text \<open>The zero value \<^verbatim>\<open>Config{}\<close> of line 53.\<close>

definition zero_Config :: Config where
  "zero_Config =
     \<lparr>RabbitMQHost = [], QueueName = [], Namespace = [], Deployment = [],
      MaxPods = 0, MinPods = 0, MsgPerPod = 0, ScanInterval = 0, ScaleFactor = 0\<rparr>"

text \<open>
  The struct \<^verbatim>\<open>configKeys\<close>, as reflection walks it: the name of each field with its
  value, the name of an environment variable, in the order of declaration.
\<close>

definition configKeys :: "(string \<times> string) list" where
  "configKeys =
     [(''RabbitMQHost'', ''AMQP_HOST''),
      (''QueueName'', ''AMQP_BUILD_QUEUE''),
      (''Namespace'', ''NAMESPACE''),
      (''Deployment'', ''DEPLOYMENT''),
      (''MaxPods'', ''MAX_PODS''),
      (''MinPods'', ''MIN_PODS''),
      (''MsgPerPod'', ''MSG_PER_POD''),
      (''ScanInterval'', ''SCAN_INTERVAL''),
      (''ScaleFactor'', ''SCALE_FACTOR'')]"

section \<open>Reading the configuration (main.go, lines 53-91)\<close>

datatype Kind = reflect_Int | reflect_String | reflect_Float64

text \<open>
  \<^verbatim>\<open>configStruct.FieldByName(fieldName)\<close> followed by \<^verbatim>\<open>Kind()\<close>: the kind of the
  field of \<^verbatim>\<open>Config\<close> with that name, \<open>None\<close> where \<^verbatim>\<open>IsValid()\<close> is false. The
  struct is reached through a pointer and all its fields are exported, so \<^verbatim>\<open>CanSet()\<close>
  holds for every valid field and the panic of line 68 is unreachable.
\<close>

definition FieldByName :: "string \<Rightarrow> Kind option" where
  "FieldByName fieldName =
     map_of
       [(''RabbitMQHost'', reflect_String),
        (''QueueName'', reflect_String),
        (''Namespace'', reflect_String),
        (''Deployment'', reflect_String),
        (''MaxPods'', reflect_Int),
        (''MinPods'', reflect_Int),
        (''MsgPerPod'', reflect_Int),
        (''ScanInterval'', reflect_Int),
        (''ScaleFactor'', reflect_Float64)] fieldName"

definition SetString :: "string \<Rightarrow> string \<Rightarrow> Config \<Rightarrow> Config" where
  "SetString fieldName v config =
     (if fieldName = ''RabbitMQHost'' then config\<lparr>RabbitMQHost := v\<rparr>
      else if fieldName = ''QueueName'' then config\<lparr>QueueName := v\<rparr>
      else if fieldName = ''Namespace'' then config\<lparr>Namespace := v\<rparr>
      else if fieldName = ''Deployment'' then config\<lparr>Deployment := v\<rparr>
      else config)"

definition SetInt :: "string \<Rightarrow> int \<Rightarrow> Config \<Rightarrow> Config" where
  "SetInt fieldName n config =
     (if fieldName = ''MaxPods'' then config\<lparr>MaxPods := n\<rparr>
      else if fieldName = ''MinPods'' then config\<lparr>MinPods := n\<rparr>
      else if fieldName = ''MsgPerPod'' then config\<lparr>MsgPerPod := n\<rparr>
      else if fieldName = ''ScanInterval'' then config\<lparr>ScanInterval := n\<rparr>
      else config)"

definition SetFloat :: "string \<Rightarrow> real \<Rightarrow> Config \<Rightarrow> Config" where
  "SetFloat fieldName x config =
     (if fieldName = ''ScaleFactor'' then config\<lparr>ScaleFactor := x\<rparr> else config)"

text \<open>
  \<^verbatim>\<open>os.Getenv\<close>: the process environment maps names to values, and a name that is not
  set reads as the empty string.
\<close>

definition Getenv :: "(string \<rightharpoonup> string) \<Rightarrow> string \<Rightarrow> string" where
  "Getenv env name = (case env name of None \<Rightarrow> [] | Some v \<Rightarrow> v)"

text \<open>
  \<^verbatim>\<open>strconv.ParseInt(value, 10, 64)\<close> of Go's standard library, after its
  documentation: an optional sign, then one or more decimal digits, and the value within
  the range of \<^verbatim>\<open>int64\<close>. A syntax error and a range error both return an error:
  \<open>None\<close>.
\<close>

definition digit :: "char \<Rightarrow> nat option" where
  "digit c =
     (let n = (of_char c :: nat) in if 48 \<le> n \<and> n \<le> 57 then Some (n - 48) else None)"

fun parse_digits :: "nat \<Rightarrow> string \<Rightarrow> nat option" where
  "parse_digits n [] = Some n"
| "parse_digits n (c # cs) =
     (case digit c of None \<Rightarrow> None | Some d \<Rightarrow> parse_digits (n * 10 + d) cs)"

definition ParseUint :: "string \<Rightarrow> nat option" where
  "ParseUint s =
     (if s = [] then None
      else case parse_digits 0 s of
             None \<Rightarrow> None
           | Some n \<Rightarrow> if n < 2 ^ 64 then Some n else None)"

definition ParseInt :: "string \<Rightarrow> int option" where
  "ParseInt s0 =
     (if s0 = [] then None
      else
        let neg = (hd s0 = CHR ''-'');
            s = (if hd s0 = CHR ''+'' \<or> hd s0 = CHR ''-'' then tl s0 else s0)
        in case ParseUint s of
             None \<Rightarrow> None
           | Some un \<Rightarrow>
               if \<not> neg \<and> un \<ge> 2 ^ 63 then None
               else if neg \<and> un > 2 ^ 63 then None
               else Some (if neg then - int un else int un))"

datatype error =
    FieldNotValid string
  | EnvNotSet string
  | NotValidInt string
  | NotValidFloat64 string
  | KubeConfigError string
  | KubeClientError string
  | RabbitMQConnectError string
  | RabbitMQChannelError string
  | QueueInspectError string
  | GetScaleError string
  | ScalingError string

text \<open>
  The loop of lines 60-91 over the fields of \<^verbatim>\<open>configKeys\<close>; a panic ends it with that
  error. \<^verbatim>\<open>strconv.ParseFloat(value, 64)\<close> is library code with a large grammar: it is
  the parameter \<open>ParseFloat\<close>, \<open>None\<close> for a returned error.
\<close>

fun load_fields ::
  "(string \<Rightarrow> real option) \<Rightarrow> (string \<rightharpoonup> string) \<Rightarrow> (string \<times> string) list \<Rightarrow> Config
     \<Rightarrow> error + Config" where
  "load_fields ParseFloat env [] config = Inr config"
| "load_fields ParseFloat env ((fieldName, envName) # keys) config =
     (case FieldByName fieldName of
        None \<Rightarrow> Inl (FieldNotValid fieldName)
      | Some kind \<Rightarrow>
          let v = Getenv env envName in
          if v = [] then Inl (EnvNotSet envName)
          else
            (case kind of
               reflect_Int \<Rightarrow>
                 (case ParseInt v of
                    None \<Rightarrow> Inl (NotValidInt fieldName)
                  | Some number \<Rightarrow>
                      load_fields ParseFloat env keys (SetInt fieldName number config))
             | reflect_String \<Rightarrow>
                 load_fields ParseFloat env keys (SetString fieldName v config)
             | reflect_Float64 \<Rightarrow>
                 (case ParseFloat v of
                    None \<Rightarrow> Inl (NotValidFloat64 fieldName)
                  | Some number \<Rightarrow>
                      load_fields ParseFloat env keys (SetFloat fieldName number config))))"

definition loadConfig ::
  "(string \<Rightarrow> real option) \<Rightarrow> (string \<rightharpoonup> string) \<Rightarrow> error + Config" where
  "loadConfig ParseFloat env = load_fields ParseFloat env configKeys zero_Config"

section \<open>The scaling decision (main.go, lines 131-151)\<close>

text \<open>
  Line 132: \<^verbatim>\<open>int(math.Ceil(float64(messageCount) / float64(config.MsgPerPod)))\<close>.
  With \<^verbatim>\<open>MsgPerPod = 0\<close> the quotient is an infinity or NaN, and Go leaves the
  conversion of such a value to \<^verbatim>\<open>int\<close> to the implementation: \<open>None\<close>.
\<close>

definition wanted_replicas :: "Config \<Rightarrow> int \<Rightarrow> int option" where
  "wanted_replicas config messageCount =
     (if MsgPerPod config = 0 then None
      else Some \<lceil>real_of_int messageCount / real_of_int (MsgPerPod config)\<rceil>)"

text \<open>
  Lines 134-139: two successive \<^verbatim>\<open>if\<close> statements on the variable \<^verbatim>\<open>replicas\<close>,
  the lower bound first.
\<close>

definition clamp_replicas :: "Config \<Rightarrow> int \<Rightarrow> int" where
  "clamp_replicas config replicas =
     (let replicas = (if replicas < MinPods config then MinPods config else replicas)
      in if replicas > MaxPods config then MaxPods config else replicas)"

text \<open>Lines 132-139 together: the value the debug output calls the desired replicas.\<close>

definition bounded_replicas :: "Config \<Rightarrow> int \<Rightarrow> int option" where
  "bounded_replicas config messageCount =
     map_option (clamp_replicas config) (wanted_replicas config messageCount)"

text \<open>
  Lines 145-151: when the clamped value is below the current count, a share
  \<^verbatim>\<open>ScaleFactor\<close> of the gap is added back, rounded down. The sum is not clamped again.
\<close>

definition scale_down :: "Config \<Rightarrow> int \<Rightarrow> int \<Rightarrow> int" where
  "scale_down config currentReplicas replicas =
     (if replicas < currentReplicas
      then let desiredReplicas =
                 \<lfloor>real_of_int (currentReplicas - replicas) * ScaleFactor config\<rfloor>
           in desiredReplicas + replicas
      else replicas)"

text \<open>
  Lines 131-151: the value of \<^verbatim>\<open>replicas\<close> that line 152 compares with
  \<^verbatim>\<open>currentReplicas\<close>.
\<close>

definition decide :: "Config \<Rightarrow> int \<Rightarrow> int \<Rightarrow> int option" where
  "decide config messageCount currentReplicas =
     map_option (scale_down config currentReplicas) (bounded_replicas config messageCount)"

section \<open>The control loop (main.go, lines 93-169)\<close>

text \<open>
  The part of \<^verbatim>\<open>autoscalingv1.Scale\<close> the program reads and writes: the name and the
  namespace of its metadata and \<^verbatim>\<open>Spec.Replicas\<close>, an \<^verbatim>\<open>int32\<close>.
\<close>

record Scale =
  Name :: string
  MetaNamespace :: string
  SpecReplicas :: int

text \<open>The conversion \<^verbatim>\<open>int32(replicas)\<close> of line 159 keeps the low 32 bits.\<close>

definition int32 :: "int \<Rightarrow> int" where
  "int32 n = (n + 2 ^ 31) mod 2 ^ 32 - 2 ^ 31"

text \<open>
  What the collaborators answer during one iteration: the queue's message count or an
  error, the deployment's scale or an error, and the error of \<^verbatim>\<open>UpdateScale\<close>, if any
  (read only when the call is made).
\<close>

record Responses =
  QueueInspect_ret :: "string + int"
  GetScale_ret :: "string + Scale"
  UpdateScale_ret :: "string option"

text \<open>
  What one iteration does to the outside: closing the channel and the connection, the
  lines it prints (the debug lines and the line after a scaling), the call of
  \<^verbatim>\<open>UpdateScale\<close> with the namespace, the deployment and the scale object, and the sleep.
\<close>

datatype Event =
    ChClose
  | ConnClose
  | DebugMessageCount int
  | DebugCurrentReplicas int
  | DebugDesiredReplicas int
  | DebugScaleDown real int
  | UpdateScale string string Scale
  | Scaled int
  | Sleep int

text \<open>
  How one iteration ends: the loop goes on, or the program panics, or (with
  \<^verbatim>\<open>MsgPerPod = 0\<close>) the iteration computes with a value that Go does not specify, and
  nothing is said about what it does next.
\<close>

datatype Outcome = Looping | Panic error | Unspecified

text \<open>One iteration of the loop, lines 113-168.\<close>

definition tick :: "bool \<Rightarrow> Config \<Rightarrow> Responses \<Rightarrow> Event list \<times> Outcome" where
  "tick debug config rs =
     (case QueueInspect_ret rs of
        Inl err \<Rightarrow> ([ChClose, ConnClose], Panic (QueueInspectError err))
      | Inr messageCount \<Rightarrow>
          let out1 = (if debug then [DebugMessageCount messageCount] else []) in
          (case GetScale_ret rs of
             Inl err \<Rightarrow> (out1, Panic (GetScaleError err))
           | Inr currentScale \<Rightarrow>
               let currentReplicas = SpecReplicas currentScale in
               (case bounded_replicas config messageCount of
                  None \<Rightarrow> (out1, Unspecified)
                | Some bounded \<Rightarrow>
                    let out2 = out1 @
                          (if debug
                           then [DebugCurrentReplicas currentReplicas, DebugDesiredReplicas bounded]
                           else []);
                        replicas = scale_down config currentReplicas bounded;
                        out3 = out2 @
                          (if debug \<and> bounded < currentReplicas
                           then [DebugScaleDown (ScaleFactor config) replicas]
                           else [])
                    in
                      if replicas \<noteq> currentReplicas
                      then
                        let scale = \<lparr>Name = Name currentScale,
                                     MetaNamespace = MetaNamespace currentScale,
                                     SpecReplicas = int32 replicas\<rparr>;
                            out4 = out3 @ [UpdateScale (Namespace config) (Deployment config) scale]
                        in (case UpdateScale_ret rs of
                              Some err \<Rightarrow> (out4, Panic (ScalingError err))
                            | None \<Rightarrow>
                                (out4 @ [Scaled replicas, Sleep (ScanInterval config)], Looping))
                      else (out3 @ [Sleep (ScanInterval config)], Looping))))"

text \<open>
  The loop \<^verbatim>\<open>for { ... }\<close> never ends by itself. It is run here against the answers of
  the collaborators for finitely many iterations, one element of the list each; it stops
  early at a panic.
\<close>

fun run :: "bool \<Rightarrow> Config \<Rightarrow> Responses list \<Rightarrow> Event list \<times> Outcome" where
  "run debug config [] = ([], Looping)"
| "run debug config (rs # rss) =
     (case tick debug config rs of
        (out, Looping) \<Rightarrow> (case run debug config rss of (out', res) \<Rightarrow> (out @ out', res))
      | (out, res) \<Rightarrow> (out, res))"

text \<open>
  The errors of the four calls that set up the collaborators (lines 93-110):
  \<^verbatim>\<open>rest.InClusterConfig\<close>, \<^verbatim>\<open>kubernetes.NewForConfig\<close>, \<^verbatim>\<open>amqp.Dial\<close> and
  \<^verbatim>\<open>conn.Channel\<close>.
\<close>

record Setup =
  InClusterConfig_err :: "string option"
  NewForConfig_err :: "string option"
  Dial_err :: "string option"
  Channel_err :: "string option"

text \<open>Lines 53-110: the configuration is read, then the collaborators are set up.\<close>

definition startup ::
  "(string \<Rightarrow> real option) \<Rightarrow> (string \<rightharpoonup> string) \<Rightarrow> Setup \<Rightarrow> error + Config" where
  "startup ParseFloat env setup =
     (case loadConfig ParseFloat env of
        Inl e \<Rightarrow> Inl e
      | Inr config \<Rightarrow>
          (case InClusterConfig_err setup of
             Some err \<Rightarrow> Inl (KubeConfigError err)
           | None \<Rightarrow>
               (case NewForConfig_err setup of
                  Some err \<Rightarrow> Inl (KubeClientError err)
                | None \<Rightarrow>
                    (case Dial_err setup of
                       Some err \<Rightarrow> Inl (RabbitMQConnectError err)
                     | None \<Rightarrow>
                         (case Channel_err setup of
                            Some err \<Rightarrow> Inl (RabbitMQChannelError err)
                          | None \<Rightarrow> Inr config)))))"

text \<open>
  The function \<^verbatim>\<open>main\<close>: the debug flag of line 54, the start-up, then the loop.
\<close>

definition main ::
  "(string \<Rightarrow> real option) \<Rightarrow> (string \<rightharpoonup> string) \<Rightarrow> Setup \<Rightarrow> Responses list
     \<Rightarrow> Event list \<times> Outcome" where
  "main ParseFloat env setup rss =
     (let debug = (Getenv env ''DEBUG'' = ''true'') in
      case startup ParseFloat env setup of
        Inl e \<Rightarrow> ([], Panic e)
      | Inr config \<Rightarrow> run debug config rss)"

section \<open>The decision as the specification words it\<close>




section \<open>Observations and sample inputs\<close>

text \<open>The calls of \<^verbatim>\<open>UpdateScale\<close> among the events of a run, in order.\<close>

fun UpdateScale_calls :: "Event list \<Rightarrow> (string \<times> string \<times> Scale) list" where
  "UpdateScale_calls [] = []"
| "UpdateScale_calls (UpdateScale ns d sc # es) = (ns, d, sc) # UpdateScale_calls es"
| "UpdateScale_calls (e # es) = UpdateScale_calls es"

text \<open>
  The parameters of the specification's scenarios (ten messages per replica, between one
  and ten replicas, damping one half) in a complete configuration, a deployment's scale
  with a given replica count, and answers of the collaborators without errors.
\<close>

definition sample_Config :: Config where
  "sample_Config =
     \<lparr>RabbitMQHost = ''amqp://mq'', QueueName = ''builds'', Namespace = ''ci'',
      Deployment = ''worker'', MaxPods = 10, MinPods = 1, MsgPerPod = 10,
      ScanInterval = 30, ScaleFactor = 1 / 2\<rparr>"

definition sample_Scale :: "int \<Rightarrow> Scale" where
  "sample_Scale n = \<lparr>Name = ''worker'', MetaNamespace = ''ci'', SpecReplicas = n\<rparr>"

definition sample_Responses :: "int \<Rightarrow> int \<Rightarrow> Responses" where
  "sample_Responses messageCount n =
     \<lparr>QueueInspect_ret = Inr messageCount, GetScale_ret = Inr (sample_Scale n),
      UpdateScale_ret = None\<rparr>"

definition sample_Setup :: Setup where
  "sample_Setup =
     \<lparr>InClusterConfig_err = None, NewForConfig_err = None, Dial_err = None,
      Channel_err = None\<rparr>"

text \<open>
  An environment in which every setting is present and parses, with \<^verbatim>\<open>MIN_PODS\<close>
  above \<^verbatim>\<open>MAX_PODS\<close>; the same with \<^verbatim>\<open>MIN_PODS\<close> left out; and the one value of
  \<^verbatim>\<open>strconv.ParseFloat\<close> they need.
\<close>

definition sample_env :: "string \<rightharpoonup> string" where
  "sample_env =
     [''AMQP_HOST'' \<mapsto> ''amqp://mq'', ''AMQP_BUILD_QUEUE'' \<mapsto> ''builds'',
      ''NAMESPACE'' \<mapsto> ''ci'', ''DEPLOYMENT'' \<mapsto> ''worker'',
      ''MAX_PODS'' \<mapsto> ''1'', ''MIN_PODS'' \<mapsto> ''5'', ''MSG_PER_POD'' \<mapsto> ''10'',
      ''SCAN_INTERVAL'' \<mapsto> ''30'', ''SCALE_FACTOR'' \<mapsto> ''0.5'']"

definition sample_env_unset :: "string \<rightharpoonup> string" where
  "sample_env_unset =
     [''AMQP_HOST'' \<mapsto> ''amqp://mq'', ''AMQP_BUILD_QUEUE'' \<mapsto> ''builds'',
      ''NAMESPACE'' \<mapsto> ''ci'', ''DEPLOYMENT'' \<mapsto> ''worker'',
      ''MAX_PODS'' \<mapsto> ''1'', ''MSG_PER_POD'' \<mapsto> ''10'',
      ''SCAN_INTERVAL'' \<mapsto> ''30'', ''SCALE_FACTOR'' \<mapsto> ''0.5'']"

definition sample_ParseFloat :: "string \<Rightarrow> real option" where
  "sample_ParseFloat = [''0.5'' \<mapsto> 1 / 2]"

section \<open>Properties\<close>

subsection \<open>Auxiliary facts\<close>

lemma clamp_replicas_min_max:
  "clamp_replicas config r = min (MaxPods config) (max (MinPods config) r)"
  by (simp add: clamp_replicas_def Let_def min_def max_def)

lemma bounded_replicas_Some:
  "MsgPerPod config \<noteq> 0 \<Longrightarrow>
   bounded_replicas config m =
     Some (clamp_replicas config \<lceil>real_of_int m / real_of_int (MsgPerPod config)\<rceil>)"
  by (simp add: bounded_replicas_def wanted_replicas_def)

lemma bounded_replicas_None:
  "MsgPerPod config = 0 \<Longrightarrow> bounded_replicas config m = None"
  by (simp add: bounded_replicas_def wanted_replicas_def)

lemma decide_Some:
  "bounded_replicas config m = Some b \<Longrightarrow>
   decide config m c = Some (scale_down config c b)"
  by (simp add: decide_def)



lemma clamp_replicas_mono: "r \<le> r' \<Longrightarrow> clamp_replicas config r \<le> clamp_replicas config r'"
  unfolding clamp_replicas_min_max by (intro min.mono max.mono) simp_all

lemma floor_share_nonneg:
  fixes f :: real and g :: int
  assumes "0 \<le> g" and "0 \<le> f"
  shows "0 \<le> \<lfloor>real_of_int g * f\<rfloor>"
proof -
  have "0 \<le> real_of_int g * f" using assms by simp
  then show ?thesis by simp
qed

lemma floor_share_le:
  fixes f :: real and g :: int
  assumes "0 \<le> g" and "f \<le> 1"
  shows "\<lfloor>real_of_int g * f\<rfloor> \<le> g"
proof -
  have "real_of_int g * f \<le> real_of_int g * 1"
    using assms by (intro mult_left_mono) simp_all
  then have "\<lfloor>real_of_int g * f\<rfloor> \<le> \<lfloor>real_of_int g\<rfloor>"
    by (intro floor_mono) simp
  then show ?thesis by simp
qed

lemma scale_down_growth: "c \<le> b \<Longrightarrow> scale_down config c b = b"
  by (simp add: scale_down_def)

lemma scale_down_shrink:
  "b < c \<Longrightarrow> scale_down config c b = b + \<lfloor>real_of_int (c - b) * ScaleFactor config\<rfloor>"
  by (simp add: scale_down_def Let_def)

lemma scale_down_lower: "0 \<le> ScaleFactor config \<Longrightarrow> b \<le> scale_down config c b"
proof (cases "b < c")
  case True
  assume "0 \<le> ScaleFactor config"
  with True have "0 \<le> \<lfloor>real_of_int (c - b) * ScaleFactor config\<rfloor>"
    by (intro floor_share_nonneg) simp_all
  with True show ?thesis by (simp add: scale_down_shrink)
next
  case False
  then show ?thesis by (simp add: scale_down_growth)
qed

lemma scale_down_upper:
  assumes "ScaleFactor config \<le> 1"
  shows "scale_down config c b \<le> max b c"
proof (cases "b < c")
  case True
  with assms have "\<lfloor>real_of_int (c - b) * ScaleFactor config\<rfloor> \<le> c - b"
    by (intro floor_share_le) simp_all
  with True show ?thesis by (simp add: scale_down_shrink)
next
  case False
  then show ?thesis by (simp add: scale_down_growth)
qed


lemma UpdateScale_calls_append:
  "UpdateScale_calls (xs @ ys) = UpdateScale_calls xs @ UpdateScale_calls ys"
  by (induction xs rule: UpdateScale_calls.induct) simp_all

text \<open>
  An iteration whose two reads succeed calls \<^verbatim>\<open>UpdateScale\<close> at most once, with the
  damped value, and only when that value is not the current replica count.
\<close>

lemma tick_UpdateScale_calls:
  assumes "QueueInspect_ret rs = Inr m" and "GetScale_ret rs = Inr sc"
    and "bounded_replicas config m = Some b"
  shows "UpdateScale_calls (fst (tick debug config rs)) =
           (if scale_down config (SpecReplicas sc) b = SpecReplicas sc then []
            else [(Namespace config, Deployment config,
                   \<lparr>Name = Name sc, MetaNamespace = MetaNamespace sc,
                    SpecReplicas = int32 (scale_down config (SpecReplicas sc) b)\<rparr>)])"
  using assms
  by (simp add: tick_def Let_def UpdateScale_calls_append split: option.split)

lemma run_append:
  "run debug config (xs @ ys) =
     (case run debug config xs of
        (out, Looping) \<Rightarrow> (case run debug config ys of (out', res) \<Rightarrow> (out @ out', res))
      | (out, res) \<Rightarrow> (out, res))"
proof (induction xs)
  case Nil
  show ?case by (simp split: prod.split)
next
  case (Cons x xs)
  show ?case
    by (simp add: Cons.IH split: prod.split Outcome.split)
qed

lemmas load_defs =
  loadConfig_def configKeys_def zero_Config_def FieldByName_def SetInt_def SetString_def
  SetFloat_def

lemmas sample_defs =
  sample_Config_def sample_Scale_def sample_Responses_def sample_Setup_def
  sample_ParseFloat_def

text \<open>
  A configuration whose nine settings are present and parse is accepted with the parsed
  values, whatever they are.
\<close>

lemma loadConfig_accepts:
  assumes "Getenv env ''AMQP_HOST'' \<noteq> []" and "Getenv env ''AMQP_BUILD_QUEUE'' \<noteq> []"
    and "Getenv env ''NAMESPACE'' \<noteq> []" and "Getenv env ''DEPLOYMENT'' \<noteq> []"
    and "ParseInt (Getenv env ''MAX_PODS'') = Some maxPods"
    and "ParseInt (Getenv env ''MIN_PODS'') = Some minPods"
    and "ParseInt (Getenv env ''MSG_PER_POD'') = Some msgPerPod"
    and "ParseInt (Getenv env ''SCAN_INTERVAL'') = Some scanInterval"
    and "Getenv env ''SCALE_FACTOR'' \<noteq> []"
    and "ParseFloat (Getenv env ''SCALE_FACTOR'') = Some scaleFactor"
  shows "loadConfig ParseFloat env =
           Inr \<lparr>RabbitMQHost = Getenv env ''AMQP_HOST'',
                QueueName = Getenv env ''AMQP_BUILD_QUEUE'',
                Namespace = Getenv env ''NAMESPACE'',
                Deployment = Getenv env ''DEPLOYMENT'',
                MaxPods = maxPods, MinPods = minPods, MsgPerPod = msgPerPod,
                ScanInterval = scanInterval, ScaleFactor = scaleFactor\<rparr>"
proof -
  have ne: "Getenv env ''MAX_PODS'' \<noteq> []" "Getenv env ''MIN_PODS'' \<noteq> []"
    "Getenv env ''MSG_PER_POD'' \<noteq> []" "Getenv env ''SCAN_INTERVAL'' \<noteq> []"
    using assms(5-8) by (auto simp: ParseInt_def)
  show ?thesis
    using assms ne by (simp add: load_defs)
qed

lemma sample_tick:
  "tick False sample_Config (sample_Responses 0 5)
     = ([UpdateScale ''ci'' ''worker'' (sample_Scale 3), Scaled 3, Sleep 30], Looping)"
  "tick False sample_Config (sample_Responses 25 1)
     = ([UpdateScale ''ci'' ''worker'' (sample_Scale 3), Scaled 3, Sleep 30], Looping)"
  by (simp_all add: tick_def sample_defs bounded_replicas_def wanted_replicas_def
      clamp_replicas_def scale_down_def int32_def)

lemmas decision_defs =
  decide_def bounded_replicas_def wanted_replicas_def clamp_replicas_def scale_down_def

subsection \<open>The bounds of the target\<close>




subsection \<open>The decision is the specification's algorithm\<close>



subsection \<open>The specification's scenarios\<close>

text \<open>
  Claim C3. With ten messages per replica and between one and ten replicas, whatever
  the other settings: 25 messages at 1 replica give 3; no message at 5 replicas with
  damping one half gives 3; 120 messages at 2 replicas give 10; 10 messages at 1
  replica give 1, and the iteration that reads these two values makes no call of
  \<^verbatim>\<open>UpdateScale\<close>.
\<close>

theorem decide_scenarios:
  "decide (config\<lparr>MaxPods := 10, MinPods := 1, MsgPerPod := 10\<rparr>) 25 1 = Some 3 \<and>
   decide (config\<lparr>MaxPods := 10, MinPods := 1, MsgPerPod := 10, ScaleFactor := 1 / 2\<rparr>) 0 5
     = Some 3 \<and>
   decide (config\<lparr>MaxPods := 10, MinPods := 1, MsgPerPod := 10\<rparr>) 120 2 = Some 10 \<and>
   decide (config\<lparr>MaxPods := 10, MinPods := 1, MsgPerPod := 10\<rparr>) 10 1 = Some 1 \<and>
   UpdateScale_calls
     (fst (tick debug (config\<lparr>MaxPods := 10, MinPods := 1, MsgPerPod := 10\<rparr>)
             (rs\<lparr>QueueInspect_ret := Inr 10, GetScale_ret := Inr (sc\<lparr>SpecReplicas := 1\<rparr>)\<rparr>)))
     = []"
proof -
  let ?c = "config\<lparr>MaxPods := 10, MinPods := 1, MsgPerPod := 10\<rparr>"
  have b: "bounded_replicas ?c 10 = Some 1"
    by (simp add: bounded_replicas_def wanted_replicas_def clamp_replicas_def)
  have "UpdateScale_calls
     (fst (tick debug ?c
             (rs\<lparr>QueueInspect_ret := Inr 10, GetScale_ret := Inr (sc\<lparr>SpecReplicas := 1\<rparr>)\<rparr>)))
     = []"
    by (simp add: tick_UpdateScale_calls [OF _ _ b] scale_down_def)
  moreover have "decide ?c 25 1 = Some 3" "decide ?c 120 2 = Some 10" "decide ?c 10 1 = Some 1"
    by (simp_all add: decision_defs)
  moreover have "decide (?c\<lparr>ScaleFactor := 1 / 2\<rparr>) 0 5 = Some 3"
    by (simp add: decision_defs)
  ultimately show ?thesis by simp
qed

subsection \<open>The two ends of the damping factor\<close>

text \<open>
  Claim C4. In an iteration that reads the message count and the scale without error
  and whose bounded value is below the current replica count: with a damping factor of
  0 the target is the bounded value, and with a damping factor of 1 the target is the
  current replica count and the iteration makes no call of \<^verbatim>\<open>UpdateScale\<close>.
\<close>

theorem damping_zero_and_one:
  assumes "QueueInspect_ret rs = Inr messageCount" and "GetScale_ret rs = Inr currentScale"
    and "bounded_replicas config messageCount = Some bounded"
    and "bounded < SpecReplicas currentScale"
  shows "(ScaleFactor config = 0 \<longrightarrow>
            decide config messageCount (SpecReplicas currentScale) = Some bounded) \<and>
         (ScaleFactor config = 1 \<longrightarrow>
            decide config messageCount (SpecReplicas currentScale)
              = Some (SpecReplicas currentScale) \<and>
            UpdateScale_calls (fst (tick debug config rs)) = [])"
proof (intro conjI impI)
  assume "ScaleFactor config = 0"
  with assms(4) have "scale_down config (SpecReplicas currentScale) bounded = bounded"
    by (simp add: scale_down_shrink)
  with assms(3) show "decide config messageCount (SpecReplicas currentScale) = Some bounded"
    by (simp add: decide_Some)
next
  assume "ScaleFactor config = 1"
  with assms(4) have *: "scale_down config (SpecReplicas currentScale) bounded
      = SpecReplicas currentScale"
    by (simp add: scale_down_shrink)
  with assms(3) show "decide config messageCount (SpecReplicas currentScale)
      = Some (SpecReplicas currentScale)"
    by (simp add: decide_Some)
  from * show "UpdateScale_calls (fst (tick debug config rs)) = []"
    by (simp add: tick_UpdateScale_calls [OF assms(1-3)])
qed

theorem damping_zero_and_one_witness:
  "QueueInspect_ret (sample_Responses 0 5) = Inr 0 \<and>
   GetScale_ret (sample_Responses 0 5) = Inr (sample_Scale 5) \<and>
   bounded_replicas (sample_Config\<lparr>ScaleFactor := 0\<rparr>) 0 = Some 1 \<and>
   bounded_replicas (sample_Config\<lparr>ScaleFactor := 1\<rparr>) 0 = Some 1 \<and>
   1 < SpecReplicas (sample_Scale 5) \<and>
   decide (sample_Config\<lparr>ScaleFactor := 0\<rparr>) 0 5 = Some 1 \<and>
   decide (sample_Config\<lparr>ScaleFactor := 1\<rparr>) 0 5 = Some 5 \<and>
   UpdateScale_calls (fst (tick True (sample_Config\<lparr>ScaleFactor := 1\<rparr>) (sample_Responses 0 5)))
     = []"
  using
    damping_zero_and_one [of "sample_Responses 0 5" 0 "sample_Scale 5"
      "sample_Config\<lparr>ScaleFactor := 0\<rparr>" 1 True]
    damping_zero_and_one [of "sample_Responses 0 5" 0 "sample_Scale 5"
      "sample_Config\<lparr>ScaleFactor := 1\<rparr>" 1 True]
  by (simp add: sample_Responses_def sample_Scale_def sample_Config_def
      bounded_replicas_def wanted_replicas_def clamp_replicas_def)

subsection \<open>When the loop calls UpdateScale\<close>

text \<open>
  Claim C5. In an iteration that reads the message count and the scale without error
  (and with \<open>MsgPerPod\<close> not zero, so that a target is decided), the loop makes no call
  of \<^verbatim>\<open>UpdateScale\<close> when the target equals the replica count it has just read, and
  exactly one call, for the target, when it differs.
\<close>

theorem tick_applies_iff_target_differs:
  assumes "QueueInspect_ret rs = Inr messageCount" and "GetScale_ret rs = Inr currentScale"
    and "MsgPerPod config \<noteq> 0"
  shows "\<exists>target.
           decide config messageCount (SpecReplicas currentScale) = Some target \<and>
           UpdateScale_calls (fst (tick debug config rs)) =
             (if target = SpecReplicas currentScale then []
              else [(Namespace config, Deployment config,
                     \<lparr>Name = Name currentScale, MetaNamespace = MetaNamespace currentScale,
                      SpecReplicas = int32 target\<rparr>)])"
proof -
  from assms(3) obtain b where b: "bounded_replicas config messageCount = Some b"
    by (simp add: bounded_replicas_Some)
  then have "decide config messageCount (SpecReplicas currentScale)
      = Some (scale_down config (SpecReplicas currentScale) b)"
    by (rule decide_Some)
  with tick_UpdateScale_calls [OF assms(1,2) b] show ?thesis by simp
qed

text \<open>
  The theorem at two iterations of the sample configuration: 10 messages at 1 replica
  (target 1, no call) and no message at 5 replicas (target 3, one call).
\<close>

theorem tick_applies_iff_target_differs_witness:
  "QueueInspect_ret (sample_Responses 10 1) = Inr 10 \<and>
   GetScale_ret (sample_Responses 10 1) = Inr (sample_Scale 1) \<and>
   MsgPerPod sample_Config \<noteq> 0 \<and>
   decide sample_Config 10 1 = Some 1 \<and>
   UpdateScale_calls (fst (tick True sample_Config (sample_Responses 10 1))) = [] \<and>
   decide sample_Config 0 5 = Some 3 \<and>
   UpdateScale_calls (fst (tick True sample_Config (sample_Responses 0 5)))
     = [(''ci'', ''worker'', sample_Scale 3)]"
  using
    tick_applies_iff_target_differs [of "sample_Responses 10 1" 10 "sample_Scale 1"
      sample_Config True]
    tick_applies_iff_target_differs [of "sample_Responses 0 5" 0 "sample_Scale 5"
      sample_Config True]
  by (simp add: sample_defs decision_defs int32_def)

subsection \<open>Monotonicity of the bounded value\<close>

text \<open>
  Claim C6. With \<open>MsgPerPod > 0\<close>, the bounded value (lines 132-139, before any
  damping, and independent of the current replica count) does not decrease when the
  message count grows.
\<close>

theorem bounded_replicas_mono:
  assumes "0 < MsgPerPod config" and "p1 \<le> p2"
  shows "\<exists>b1 b2. bounded_replicas config p1 = Some b1 \<and>
                 bounded_replicas config p2 = Some b2 \<and> b1 \<le> b2"
proof -
  let ?m = "real_of_int (MsgPerPod config)"
  from assms have "real_of_int p1 / ?m \<le> real_of_int p2 / ?m"
    by (simp add: divide_right_mono)
  then have "\<lceil>real_of_int p1 / ?m\<rceil> \<le> \<lceil>real_of_int p2 / ?m\<rceil>"
    by (rule ceiling_mono)
  then have "clamp_replicas config \<lceil>real_of_int p1 / ?m\<rceil>
      \<le> clamp_replicas config \<lceil>real_of_int p2 / ?m\<rceil>"
    by (rule clamp_replicas_mono)
  with assms(1) show ?thesis by (simp add: bounded_replicas_Some)
qed

theorem bounded_replicas_mono_witness:
  "0 < MsgPerPod sample_Config \<and> (10::int) \<le> 25 \<and>
   bounded_replicas sample_Config 10 = Some 1 \<and>
   bounded_replicas sample_Config 25 = Some 3 \<and> (1::int) \<le> 3"
  using bounded_replicas_mono [of sample_Config 10 25]
  by (simp add: sample_Config_def bounded_replicas_def wanted_replicas_def
      clamp_replicas_def)

subsection \<open>What the decision depends on\<close>

text \<open>
  Claim C7. The decision is a function of the message count, the current replica count
  and the four scaling parameters: two configurations that agree on \<open>MaxPods\<close>,
  \<open>MinPods\<close>, \<open>MsgPerPod\<close> and \<open>ScaleFactor\<close> decide alike on the same two counts,
  whatever their other settings. And the loop carries nothing from one iteration to the
  next: after any number of iterations that did not panic, the next iteration does and
  returns what it would do on its own answers alone.
\<close>

theorem decide_pure:
  "(MaxPods c1 = MaxPods c2 \<and> MinPods c1 = MinPods c2 \<and> MsgPerPod c1 = MsgPerPod c2 \<and>
    ScaleFactor c1 = ScaleFactor c2
      \<longrightarrow> decide c1 messageCount currentReplicas = decide c2 messageCount currentReplicas) \<and>
   (run debug config rss = (out, Looping)
      \<longrightarrow> run debug config (rss @ [rs])
            = (out @ fst (tick debug config rs), snd (tick debug config rs)))"
proof (intro conjI impI)
  assume "MaxPods c1 = MaxPods c2 \<and> MinPods c1 = MinPods c2 \<and> MsgPerPod c1 = MsgPerPod c2 \<and>
    ScaleFactor c1 = ScaleFactor c2"
  then have eq: "MaxPods c1 = MaxPods c2" "MinPods c1 = MinPods c2"
    "MsgPerPod c1 = MsgPerPod c2" "ScaleFactor c1 = ScaleFactor c2"
    by simp_all
  have w: "wanted_replicas c1 messageCount = wanted_replicas c2 messageCount"
    by (simp add: wanted_replicas_def eq(3))
  have cl: "clamp_replicas c1 = clamp_replicas c2"
    by (rule ext) (simp add: clamp_replicas_min_max eq(1,2))
  have sd: "scale_down c1 currentReplicas = scale_down c2 currentReplicas"
    by (rule ext) (simp add: scale_down_def eq(4))
  show "decide c1 messageCount currentReplicas = decide c2 messageCount currentReplicas"
    by (simp add: decide_def bounded_replicas_def w cl sd)
next
  assume "run debug config rss = (out, Looping)"
  then show "run debug config (rss @ [rs])
      = (out @ fst (tick debug config rs), snd (tick debug config rs))"
    by (cases "tick debug config rs") (simp add: run_append split: Outcome.split)
qed

text \<open>
  The theorem at the sample configuration and a copy of it for another queue, namespace
  and interval; and at a run of one iteration (25 messages at 1 replica) followed by a
  second (no message at 5 replicas).
\<close>

theorem decide_pure_witness:
  "MaxPods sample_Config
     = MaxPods (sample_Config\<lparr>QueueName := ''other'', Namespace := ''qa'', ScanInterval := 5\<rparr>) \<and>
   MinPods sample_Config
     = MinPods (sample_Config\<lparr>QueueName := ''other'', Namespace := ''qa'', ScanInterval := 5\<rparr>) \<and>
   MsgPerPod sample_Config
     = MsgPerPod (sample_Config\<lparr>QueueName := ''other'', Namespace := ''qa'', ScanInterval := 5\<rparr>) \<and>
   ScaleFactor sample_Config
     = ScaleFactor (sample_Config\<lparr>QueueName := ''other'', Namespace := ''qa'', ScanInterval := 5\<rparr>) \<and>
   decide sample_Config 0 5
     = decide (sample_Config\<lparr>QueueName := ''other'', Namespace := ''qa'', ScanInterval := 5\<rparr>) 0 5 \<and>
   run False sample_Config [sample_Responses 25 1]
     = ([UpdateScale ''ci'' ''worker'' (sample_Scale 3), Scaled 3, Sleep 30], Looping) \<and>
   run False sample_Config ([sample_Responses 25 1] @ [sample_Responses 0 5])
     = ([UpdateScale ''ci'' ''worker'' (sample_Scale 3), Scaled 3, Sleep 30]
          @ fst (tick False sample_Config (sample_Responses 0 5)),
        snd (tick False sample_Config (sample_Responses 0 5)))"
proof -
  let ?c2 = "sample_Config\<lparr>QueueName := ''other'', Namespace := ''qa'', ScanInterval := 5\<rparr>"
  let ?out = "[UpdateScale ''ci'' ''worker'' (sample_Scale 3), Scaled 3, Sleep 30]"
  have r: "run False sample_Config [sample_Responses 25 1] = (?out, Looping)"
    by (simp add: sample_tick)
  note inst = decide_pure [where ?c1.0 = sample_Config and ?c2.0 = ?c2
      and messageCount = 0 and currentReplicas = 5 and debug = False and config = sample_Config
      and rss = "[sample_Responses 25 1]" and out = ?out and rs = "sample_Responses 0 5"]
  from inst have "decide sample_Config 0 5 = decide ?c2 0 5"
    by simp
  moreover from inst r
  have "run False sample_Config ([sample_Responses 25 1] @ [sample_Responses 0 5])
     = (?out @ fst (tick False sample_Config (sample_Responses 0 5)),
        snd (tick False sample_Config (sample_Responses 0 5)))"
    by blast
  ultimately show ?thesis using r by simp
qed

subsection \<open>What the start-up rejects\<close>

text \<open>
  Claim C8, as amended. Reading the configuration fails exactly when one of the nine
  settings is unset or empty, or one of the four integer settings is not a decimal
  \<^verbatim>\<open>int64\<close>, or the scale factor does not parse as a float; the program then panics
  before any iteration of the loop, having done nothing. No relation between the values
  is checked: in particular \<open>MinPods > MaxPods\<close> is not a reason to reject.
\<close>

theorem loadConfig_rejects_iff:
  "((\<exists>e. loadConfig ParseFloat env = Inl e) \<longleftrightarrow>
      (\<exists>name \<in> set (map snd configKeys). Getenv env name = []) \<or>
      ParseInt (Getenv env ''MAX_PODS'') = None \<or>
      ParseInt (Getenv env ''MIN_PODS'') = None \<or>
      ParseInt (Getenv env ''MSG_PER_POD'') = None \<or>
      ParseInt (Getenv env ''SCAN_INTERVAL'') = None \<or>
      ParseFloat (Getenv env ''SCALE_FACTOR'') = None) \<and>
   (\<forall>e. loadConfig ParseFloat env = Inl e \<longrightarrow> main ParseFloat env setup rss = ([], Panic e))"
proof (intro conjI allI impI)
  show "(\<exists>e. loadConfig ParseFloat env = Inl e) \<longleftrightarrow>
      (\<exists>name \<in> set (map snd configKeys). Getenv env name = []) \<or>
      ParseInt (Getenv env ''MAX_PODS'') = None \<or>
      ParseInt (Getenv env ''MIN_PODS'') = None \<or>
      ParseInt (Getenv env ''MSG_PER_POD'') = None \<or>
      ParseInt (Getenv env ''SCAN_INTERVAL'') = None \<or>
      ParseFloat (Getenv env ''SCALE_FACTOR'') = None"
    by (simp add: load_defs Let_def split: option.split)
next
  fix e assume "loadConfig ParseFloat env = Inl e"
  then show "main ParseFloat env setup rss = ([], Panic e)"
    by (simp add: main_def startup_def)
qed

text \<open>The theorem at the environment that leaves \<^verbatim>\<open>MIN_PODS\<close> unset.\<close>

theorem loadConfig_rejects_iff_witness:
  "Getenv sample_env_unset ''MIN_PODS'' = [] \<and>
   loadConfig sample_ParseFloat sample_env_unset = Inl (EnvNotSet ''MIN_PODS'') \<and>
   main sample_ParseFloat sample_env_unset sample_Setup [sample_Responses 0 5]
     = ([], Panic (EnvNotSet ''MIN_PODS''))"
proof -
  have 1: "Getenv sample_env_unset ''MIN_PODS'' = []"
    by (simp add: Getenv_def sample_env_unset_def)
  have 2: "loadConfig sample_ParseFloat sample_env_unset = Inl (EnvNotSet ''MIN_PODS'')"
    by (simp add: load_defs Getenv_def sample_env_unset_def ParseInt_def ParseUint_def
        digit_def)
  from 2 loadConfig_rejects_iff [of sample_ParseFloat sample_env_unset sample_Setup
      "[sample_Responses 0 5]"]
  have "main sample_ParseFloat sample_env_unset sample_Setup [sample_Responses 0 5]
     = ([], Panic (EnvNotSet ''MIN_PODS''))"
    by blast
  with 1 2 show ?thesis by simp
qed

text \<open>
  Claim C8 as stated fails. With \<^verbatim>\<open>MIN_PODS=5\<close> and \<^verbatim>\<open>MAX_PODS=1\<close> the start-up
  succeeds with \<open>MinPods = 5 > MaxPods = 1\<close>, and the first iteration of the loop runs
  with that configuration: with no message and 5 replicas it scales to 3.
\<close>

theorem min_above_max_reaches_loop:
  "startup sample_ParseFloat sample_env sample_Setup
     = Inr (sample_Config\<lparr>MaxPods := 1, MinPods := 5\<rparr>) \<and>
   MaxPods (sample_Config\<lparr>MaxPods := 1, MinPods := 5\<rparr>)
     < MinPods (sample_Config\<lparr>MaxPods := 1, MinPods := 5\<rparr>) \<and>
   main sample_ParseFloat sample_env sample_Setup [sample_Responses 0 5]
     = ([UpdateScale ''ci'' ''worker'' (sample_Scale 3), Scaled 3, Sleep 30], Looping)"
proof -
  have env: "Getenv sample_env ''AMQP_HOST'' = ''amqp://mq''"
    "Getenv sample_env ''AMQP_BUILD_QUEUE'' = ''builds''"
    "Getenv sample_env ''NAMESPACE'' = ''ci''"
    "Getenv sample_env ''DEPLOYMENT'' = ''worker''"
    "Getenv sample_env ''MAX_PODS'' = ''1''"
    "Getenv sample_env ''MIN_PODS'' = ''5''"
    "Getenv sample_env ''MSG_PER_POD'' = ''10''"
    "Getenv sample_env ''SCAN_INTERVAL'' = ''30''"
    "Getenv sample_env ''SCALE_FACTOR'' = ''0.5''"
    "Getenv sample_env ''DEBUG'' = []"
    by (simp_all add: Getenv_def sample_env_def)
  have ints: "ParseInt ''1'' = Some 1" "ParseInt ''5'' = Some 5" "ParseInt ''10'' = Some 10"
    "ParseInt ''30'' = Some 30"
    by (simp_all add: ParseInt_def ParseUint_def digit_def)
  have "loadConfig sample_ParseFloat sample_env
      = Inr (sample_Config\<lparr>MaxPods := 1, MinPods := 5\<rparr>)"
    by (subst loadConfig_accepts [where maxPods = 1 and minPods = 5 and msgPerPod = 10
          and scanInterval = 30 and scaleFactor = "1 / 2"])
      (simp_all add: env ints sample_defs)
  then have st: "startup sample_ParseFloat sample_env sample_Setup
     = Inr (sample_Config\<lparr>MaxPods := 1, MinPods := 5\<rparr>)"
    by (simp add: startup_def sample_Setup_def)
  have "tick False (sample_Config\<lparr>MaxPods := 1, MinPods := 5\<rparr>) (sample_Responses 0 5)
      = ([UpdateScale ''ci'' ''worker'' (sample_Scale 3), Scaled 3, Sleep 30], Looping)"
    by (simp add: tick_def sample_defs bounded_replicas_def wanted_replicas_def
        clamp_replicas_def scale_down_def int32_def)
  then have "main sample_ParseFloat sample_env sample_Setup [sample_Responses 0 5]
     = ([UpdateScale ''ci'' ''worker'' (sample_Scale 3), Scaled 3, Sleep 30], Looping)"
    by (simp add: main_def st env)
  with st show ?thesis by (simp add: sample_Config_def)
qed

subsection \<open>The order of the two clamps\<close>

text \<open>
  Claim C9. Whenever the quotient is defined (\<open>MsgPerPod\<close> not zero), the bounded value
  is \<open>min MaxPods (max MinPods \<lceil>messageCount / MsgPerPod\<rceil>)\<close>: the lower bound is
  applied first and the upper bound last. So the bounded value never exceeds
  \<open>MaxPods\<close>, and it is \<open>MaxPods\<close> when \<open>MinPods > MaxPods\<close>.
\<close>

theorem bounded_replicas_min_max:
  assumes "MsgPerPod config \<noteq> 0"
  shows "\<exists>bounded.
           bounded_replicas config messageCount = Some bounded \<and>
           bounded = min (MaxPods config)
                       (max (MinPods config)
                          \<lceil>real_of_int messageCount / real_of_int (MsgPerPod config)\<rceil>) \<and>
           bounded \<le> MaxPods config \<and>
           (MaxPods config < MinPods config \<longrightarrow> bounded = MaxPods config)"
  using assms by (simp add: bounded_replicas_Some clamp_replicas_min_max)

theorem bounded_replicas_min_max_witness:
  "MsgPerPod (sample_Config\<lparr>MaxPods := 1, MinPods := 5\<rparr>) \<noteq> 0 \<and>
   MaxPods (sample_Config\<lparr>MaxPods := 1, MinPods := 5\<rparr>)
     < MinPods (sample_Config\<lparr>MaxPods := 1, MinPods := 5\<rparr>) \<and>
   bounded_replicas (sample_Config\<lparr>MaxPods := 1, MinPods := 5\<rparr>) 70 = Some 1 \<and>
   min (1::int) (max 5 \<lceil>real_of_int 70 / real_of_int 10\<rceil>) = 1"
  using bounded_replicas_min_max [of "sample_Config\<lparr>MaxPods := 1, MinPods := 5\<rparr>" 70]
  by (simp add: sample_Config_def)

subsection \<open>A damped scale-down stays between the bounded and the current value\<close>

text \<open>
  Claim C10. With a damping factor between 0 and 1, a decision whose bounded value is
  below the current replica count returns a target that is at least the bounded value
  and at most the current replica count.
\<close>

theorem damped_target_between:
  assumes "0 \<le> ScaleFactor config" and "ScaleFactor config \<le> 1"
    and "bounded_replicas config messageCount = Some bounded"
    and "bounded < currentReplicas"
  shows "\<exists>target. decide config messageCount currentReplicas = Some target \<and>
                  bounded \<le> target \<and> target \<le> currentReplicas"
proof -
  let ?t = "scale_down config currentReplicas bounded"
  have "bounded \<le> ?t" using assms(1) by (rule scale_down_lower)
  moreover have "?t \<le> max bounded currentReplicas" using assms(2) by (rule scale_down_upper)
  with assms(4) have "?t \<le> currentReplicas" by simp
  moreover have "decide config messageCount currentReplicas = Some ?t"
    using assms(3) by (rule decide_Some)
  ultimately show ?thesis by simp
qed

theorem damped_target_between_witness:
  "0 \<le> ScaleFactor sample_Config \<and> ScaleFactor sample_Config \<le> 1 \<and>
   bounded_replicas sample_Config 0 = Some 1 \<and> (1::int) < 5 \<and>
   decide sample_Config 0 5 = Some 3 \<and> (1::int) \<le> 3 \<and> (3::int) \<le> 5"
  using damped_target_between [of sample_Config 0 1 5]
  by (simp add: sample_Config_def decision_defs)

end
